theory Spec2Isabelle
  imports Main
begin

section \<open>Chat with PDF: the query phase (query.js) and the ingestion phase (index.js)\<close>

subsection \<open>Turns, matches and the services the program awaits\<close>

text \<open>
  A history entry is the object \<^verbatim>\<open>{role: 'user', parts: [{text: question}]}\<close>.
  The roles are the string literals of the source.
\<close>

record part =
  "text" :: string

record turn =
  role :: string
  parts :: "part list"

text \<open>
  What an \<^verbatim>\<open>await\<close> can throw: the reason the awaited promise (or a client
  constructor) rejected with, and the TypeError of reading a property of \<^verbatim>\<open>undefined\<close>.
\<close>

datatype exn = Rejected string | TypeError

text \<open>
  One entry of \<^verbatim>\<open>searchResults.matches\<close>. The metadata of a record is a table
  from keys to values and is absent for a record stored without any; a missing key reads
  as \<^verbatim>\<open>undefined\<close>.
\<close>

record match =
  id :: string
  metadata :: "(string \<rightharpoonup> string) option"

record embeddingConfig =
  apiKey :: "string option"
  model :: string

text \<open>
  The collaborators of one call of \<^verbatim>\<open>chatting\<close>: \<^verbatim>\<open>ai.models.generateContent\<close>
  (model name, contents, system instruction; the result is \<^verbatim>\<open>response.text\<close>),
  the embedding client built from a configuration, the index query (index name, topK,
  vector, includeMetadata) and \<^verbatim>\<open>process.env\<close>. Each call either returns or throws.
  Constructing a client is folded into the first call made on it.
\<close>

record 'v services =
  generateContent :: "string \<Rightarrow> turn list \<Rightarrow> string \<Rightarrow> exn + string"
  embedQuery :: "embeddingConfig \<Rightarrow> string \<Rightarrow> exn + 'v"
  query :: "string option \<Rightarrow> nat \<Rightarrow> 'v \<Rightarrow> bool \<Rightarrow> exn + match list"
  env :: "string \<rightharpoonup> string"

text \<open>
  The module-level array \<^verbatim>\<open>History\<close> and what \<^verbatim>\<open>console.log\<close> has written.
\<close>

record state =
  History :: "turn list"
  console :: "string list"

subsection \<open>The two system instructions\<close>

definition rewriteInstruction :: string where
  \<open>rewriteInstruction = ''You are a query rewriting expert. Based on the provided chat history, rephrase the "Follow Up user Question" into a complete, standalone question that can be understood without the chat history.\<newline>    Only output the rewritten question and nothing else.''\<close>

definition answerInstruction :: "string \<Rightarrow> string" where
  \<open>answerInstruction context = ''You have to behave like a Data Structure and Algorithm Expert.\<newline>    You will be given a context of relevant information and a user question.\<newline>    Your task is to answer the user's question based ONLY on the provided context.\<newline>    If the answer is not in the context, you must say "I could not find the answer in the provided document."\<newline>    Keep your answers clear, concise, and educational.\<newline>      \<newline>      Context: '' @ context @ ''\<newline>      ''\<close>

subsection \<open>transformQuery\<close>

text \<open>
  \<^verbatim>\<open>History.push\<close>, the awaited model call on the whole array, \<^verbatim>\<open>History.pop\<close>,
  \<^verbatim>\<open>return response.text\<close>. When the awaited call throws, the statements after it
  do not run.
\<close>

definition transformQuery :: "'v services \<Rightarrow> string \<Rightarrow> state \<Rightarrow> (exn + string) \<times> state" where
  "transformQuery svc question st =
     (let st1 = st\<lparr>History := History st @ [\<lparr>role = ''user'', parts = [\<lparr>text = question\<rparr>]\<rparr>]\<rparr>
      in case generateContent svc ''gemini-2.0-flash'' (History st1) rewriteInstruction of
           Inl e \<Rightarrow> (Inl e, st1)
         | Inr response \<Rightarrow> (Inr response, st1\<lparr>History := butlast (History st1)\<rparr>))"

subsection \<open>Building the context\<close>

text \<open>
  \<^verbatim>\<open>matches.map(match => match.metadata.text)\<close>: reading \<^verbatim>\<open>.text\<close> of an absent
  metadata throws; a missing key gives \<^verbatim>\<open>undefined\<close> (here \<open>None\<close>).
\<close>

fun match_texts :: "match list \<Rightarrow> exn + string option list" where
  "match_texts [] = Inr []"
| "match_texts (m # ms) =
     (case metadata m of
        None \<Rightarrow> Inl TypeError
      | Some md \<Rightarrow>
          (case match_texts ms of
             Inl e \<Rightarrow> Inl e
           | Inr ts \<Rightarrow> Inr (md ''text'' # ts)))"

text \<open>
  \<^verbatim>\<open>Array.prototype.join\<close>: walk the array with index \<open>k\<close> and result \<open>R\<close>; before
  every element but the first append the separator; an \<^verbatim>\<open>undefined\<close> element
  contributes the empty string.
\<close>

fun join_loop :: "string \<Rightarrow> string option list \<Rightarrow> nat \<Rightarrow> string \<Rightarrow> string" where
  "join_loop sep [] k R = R"
| "join_loop sep (e # es) k R =
     join_loop sep es (Suc k)
       ((if k > 0 then R @ sep else R) @ (case e of None \<Rightarrow> '''' | Some s \<Rightarrow> s))"

definition join :: "string option list \<Rightarrow> string \<Rightarrow> string" where
  "join xs sep = join_loop sep xs 0 ''''"

definition separator :: string where
  "separator = ''\<newline>\<newline>---\<newline>\<newline>''"

definition build_context :: "match list \<Rightarrow> exn + string" where
  "build_context matches =
     (case match_texts matches of
        Inl e \<Rightarrow> Inl e
      | Inr ts \<Rightarrow> Inr (join ts separator))"

subsection \<open>chatting and the main loop\<close>

definition queryEmbeddingConfig :: "(string \<rightharpoonup> string) \<Rightarrow> embeddingConfig" where
  "queryEmbeddingConfig e = \<lparr>apiKey = e ''GEMINI_API_KEY'', model = ''text-embedding-004''\<rparr>"

definition chatting :: "'v services \<Rightarrow> string \<Rightarrow> state \<Rightarrow> (exn + unit) \<times> state" where
  "chatting svc question st =
     (case transformQuery svc question st of
        (Inl e, st1) \<Rightarrow> (Inl e, st1)
      | (Inr enhancedQuery, st1) \<Rightarrow>
          (case embedQuery svc (queryEmbeddingConfig (env svc)) enhancedQuery of
             Inl e \<Rightarrow> (Inl e, st1)
           | Inr queryVector \<Rightarrow>
               (case query svc (env svc ''PINECONE_INDEX_NAME'') 10 queryVector True of
                  Inl e \<Rightarrow> (Inl e, st1)
                | Inr matches \<Rightarrow>
                    (case build_context matches of
                       Inl e \<Rightarrow> (Inl e, st1)
                     | Inr context \<Rightarrow>
                         (let st2 = st1\<lparr>History := History st1 @
                                      [\<lparr>role = ''user'', parts = [\<lparr>text = enhancedQuery\<rparr>]\<rparr>]\<rparr>
                          in case generateContent svc ''gemini-2.0-flash'' (History st2)
                                    (answerInstruction context) of
                               Inl e \<Rightarrow> (Inl e, st2)
                             | Inr response \<Rightarrow>
                                 (Inr (),
                                  st2\<lparr>History := History st2 @
                                         [\<lparr>role = ''model'', parts = [\<lparr>text = response\<rparr>]\<rparr>],
                                       console := console st2 @ [''\<newline>'', response]\<rparr>))))))"

text \<open>
  \<^verbatim>\<open>main\<close> reads a line, awaits \<^verbatim>\<open>chatting\<close> and calls itself again. Nothing catches
  what \<^verbatim>\<open>chatting\<close> throws, so the first failing turn ends the loop. The argument
  lists, turn by turn, the line the user typed and how the services behave during that
  turn; \<open>None\<close> is the loop back at its prompt, with every listed turn done.
\<close>

fun main :: "('v services \<times> string) list \<Rightarrow> state \<Rightarrow> exn option \<times> state" where
  "main [] st = (None, st)"
| "main ((svc, userProblem) # rest) st =
     (case chatting svc userProblem st of
        (Inl e, st') \<Rightarrow> (Some e, st')
      | (Inr u, st') \<Rightarrow> main rest st')"

definition initial :: state where
  "initial = \<lparr>History = [], console = []\<rparr>"

subsection \<open>The ingestion phase (index.js)\<close>

text \<open>
  A loaded or split document, as the loader and the splitter hand it on: its text and
  its metadata table.
\<close>

record document =
  pageContent :: string
  source :: "string \<rightharpoonup> string"

text \<open>
  The collaborators of \<^verbatim>\<open>saveDocumentIntoVectorDatabase\<close>: the PDF loader (path), the
  text splitter (chunkSize, chunkOverlap, documents), the embedding client and
  \<^verbatim>\<open>process.env\<close>. The call of \<^verbatim>\<open>PineconeStore.fromDocuments\<close> passes the chunks,
  the embedding client, the index and \<^verbatim>\<open>maxConcurrency\<close>, and no ids: under which id
  each record is stored is the store library's choice for that run, \<open>documentIds\<close>.
\<close>

record 'v ingestServices =
  load :: "string \<Rightarrow> exn + document list"
  splitDocuments :: "nat \<Rightarrow> nat \<Rightarrow> document list \<Rightarrow> exn + document list"
  embedDocuments :: "embeddingConfig \<Rightarrow> string list \<Rightarrow> exn + 'v list"
  documentIds :: "document list \<Rightarrow> string list"
  ingestEnv :: "string \<rightharpoonup> string"

text \<open>The index: the records it holds, by id; each is a vector and a metadata table.\<close>

type_synonym 'v index = "string \<rightharpoonup> ('v \<times> (string \<rightharpoonup> string))"

definition PDF_PATH :: string where
  "PDF_PATH = ''D:'' @ [CHR 0x5C] @ ''Lovely Professional University'' @ [CHR 0x5C] @
     ''Educational'' @ [CHR 0x5C] @ ''GenAI Program By Google Cloud'' @ [CHR 0x5C] @
     ''RAG'' @ [CHR 0x5C] @ ''chatwithpdf'' @ [CHR 0x5C] @ ''Dsa.pdf''"

definition indexEmbeddingConfig :: "(string \<rightharpoonup> string) \<Rightarrow> embeddingConfig" where
  "indexEmbeddingConfig e = \<lparr>apiKey = e ''GEMINI_API_KEY'', model = ''text-embedding-004''\<rparr>"

text \<open>
  Modelled from the spec: the Vector Store's \<^verbatim>\<open>upsert(items)\<close>, a service outside the
  source. Ids are unique in the store, so a record replaces the one stored under its id,
  if any, and is added otherwise.
\<close>

fun upsert :: "(string \<times> 'v \<times> (string \<rightharpoonup> string)) list \<Rightarrow> 'v index \<Rightarrow> 'v index" where
  "upsert [] ix = ix"
| "upsert ((i, r) # items) ix = upsert items (ix(i \<mapsto> r))"

text \<open>
  Modelled from the spec: \<^verbatim>\<open>PineconeStore.fromDocuments\<close>, library code that the source
  only calls. It embeds the chunk texts, pairs each vector with its chunk's metadata and
  text (key \<^verbatim>\<open>text\<close>, the one \<^verbatim>\<open>chatting\<close> reads back) and upserts the pairs. The
  source hands it no ids, so the id of each record is not the program's to decide: it
  is the parameter \<open>documentIds\<close>, whatever the library gives the records of the run.
\<close>

definition fromDocuments ::
  "'v ingestServices \<Rightarrow> document list \<Rightarrow> embeddingConfig \<Rightarrow> nat \<Rightarrow> 'v index
     \<Rightarrow> (exn + unit) \<times> 'v index" where
  "fromDocuments svc docs embeddingModel maxConcurrency ix =
     (case embedDocuments svc embeddingModel (map pageContent docs) of
        Inl e \<Rightarrow> (Inl e, ix)
      | Inr vectors \<Rightarrow>
          (Inr (),
           upsert (zip (documentIds svc docs)
                     (zip vectors (map (\<lambda>d. (source d)(''text'' \<mapsto> pageContent d)) docs))) ix))"

definition saveDocumentIntoVectorDatabase ::
  "'v ingestServices \<Rightarrow> 'v index \<Rightarrow> (exn + unit) \<times> 'v index" where
  "saveDocumentIntoVectorDatabase svc ix =
     (case load svc PDF_PATH of
        Inl e \<Rightarrow> (Inl e, ix)
      | Inr rawDocs \<Rightarrow>
          (case splitDocuments svc 1000 200 rawDocs of
             Inl e \<Rightarrow> (Inl e, ix)
           | Inr chunkDocs \<Rightarrow>
               fromDocuments svc chunkDocs (indexEmbeddingConfig (ingestEnv svc)) 5 ix))"

subsection \<open>Notions the properties are stated with\<close>

abbreviation userTurn :: "string \<Rightarrow> turn" where
  "userTurn t \<equiv> \<lparr>role = ''user'', parts = [\<lparr>text = t\<rparr>]\<rparr>"

abbreviation modelTurn :: "string \<Rightarrow> turn" where
  "modelTurn t \<equiv> \<lparr>role = ''model'', parts = [\<lparr>text = t\<rparr>]\<rparr>"

text \<open>The sentence the answer instruction tells the model to say.\<close>

definition fallbackAnswer :: string where
  "fallbackAnswer = ''I could not find the answer in the provided document.''"

text \<open>
  The number of exchanges of a session that completed: the turns, from the first on,
  whose call of \<^verbatim>\<open>chatting\<close> returned.
\<close>

fun completed :: "('v services \<times> string) list \<Rightarrow> state \<Rightarrow> nat" where
  "completed [] st = 0"
| "completed ((svc, userProblem) # rest) st =
     (case chatting svc userProblem st of
        (Inl e, st') \<Rightarrow> 0
      | (Inr u, st') \<Rightarrow> Suc (completed rest st'))"

text \<open>
  A turn fails in a model call when its rewriting call is rejected, or when rewriting,
  embedding, the index query and the context succeed and its answering call is rejected.
\<close>

definition model_call_rejected :: "'v services \<Rightarrow> string \<Rightarrow> state \<Rightarrow> bool" where
  "model_call_rejected svc question st =
     (case generateContent svc ''gemini-2.0-flash'' (History st @ [userTurn question]) rewriteInstruction of
        Inl e \<Rightarrow> True
      | Inr enhancedQuery \<Rightarrow>
          (case embedQuery svc (queryEmbeddingConfig (env svc)) enhancedQuery of
             Inl e \<Rightarrow> False
           | Inr queryVector \<Rightarrow>
               (case query svc (env svc ''PINECONE_INDEX_NAME'') 10 queryVector True of
                  Inl e \<Rightarrow> False
                | Inr matches \<Rightarrow>
                    (case build_context matches of
                       Inl e \<Rightarrow> False
                     | Inr context \<Rightarrow>
                         (case generateContent svc ''gemini-2.0-flash''
                                 (History st @ [userTurn enhancedQuery]) (answerInstruction context) of
                            Inl e \<Rightarrow> True
                          | Inr response \<Rightarrow> False)))))"

text \<open>
  The stray entries of a session: one when the turn that ended it failed in a model
  call, none otherwise.
\<close>

fun stray :: "('v services \<times> string) list \<Rightarrow> state \<Rightarrow> nat" where
  "stray [] st = 0"
| "stray ((svc, userProblem) # rest) st =
     (case chatting svc userProblem st of
        (Inl e, st') \<Rightarrow> (if model_call_rejected svc userProblem st then 1 else 0)
      | (Inr u, st') \<Rightarrow> stray rest st')"

text \<open>
  The context assembler in the specification's words: the texts in the given order, one
  fixed delimiter between neighbours, the empty string for no text at all.
\<close>

fun assemble :: "string list \<Rightarrow> string" where
  "assemble [] = ''''"
| "assemble [t] = t"
| "assemble (t # u # ts) = t @ separator @ assemble (u # ts)"

subsection \<open>Sample collaborators\<close>

text \<open>
  Services that answer by script: the rewriting call gets \<open>rw\<close>, the embedding call
  \<open>em\<close>, the index query \<open>ix\<close>, and the answering call \<open>gen\<close> of the contents it is
  sent.
\<close>

definition scripted ::
  "(exn + string) \<Rightarrow> (exn + nat list) \<Rightarrow> (exn + match list) \<Rightarrow> (turn list \<Rightarrow> exn + string)
     \<Rightarrow> nat list services" where
  "scripted rw em ix gen =
     \<lparr>generateContent = (\<lambda>m contents instruction.
          if instruction = rewriteInstruction then rw else gen contents),
      embedQuery = (\<lambda>config t. em),
      query = (\<lambda>name topK v includeMetadata. ix),
      env = Map.empty\<rparr>"

definition bst_match :: match where
  "bst_match = \<lparr>id = ''chunk-1'',
     metadata = Some [''text'' \<mapsto> ''Binary search trees have O(log n) average lookup time.'']\<rparr>"

text \<open>
  An ingestion of one document that splits into the given chunks, stored under the
  given ids.
\<close>

definition ingesting :: "document list \<Rightarrow> string list \<Rightarrow> nat list ingestServices" where
  "ingesting chunks ids =
     \<lparr>load = (\<lambda>path. Inr [\<lparr>pageContent = concat (map pageContent chunks), source = Map.empty\<rparr>]),
      splitDocuments = (\<lambda>chunkSize chunkOverlap docs. Inr chunks),
      embedDocuments = (\<lambda>config texts. Inr (map (\<lambda>t. [length t]) texts)),
      documentIds = (\<lambda>docs. ids),
      ingestEnv = Map.empty\<rparr>"


section \<open>Properties\<close>

subsection \<open>Auxiliary facts\<close>

lemma transformQuery_returns:
  assumes "generateContent svc ''gemini-2.0-flash'' (History st @ [userTurn q]) rewriteInstruction = Inr r"
  shows "transformQuery svc q st = (Inr r, st)"
  using assms by (simp add: transformQuery_def)

lemma transformQuery_throws:
  assumes "generateContent svc ''gemini-2.0-flash'' (History st @ [userTurn q]) rewriteInstruction = Inl e"
  shows "transformQuery svc q st = (Inl e, st\<lparr>History := History st @ [userTurn q]\<rparr>)"
  using assms by (simp add: transformQuery_def)

lemma instructions_differ: "answerInstruction c \<noteq> rewriteInstruction"
  by (simp add: answerInstruction_def rewriteInstruction_def)

lemma join_loop_pos:
  "0 < k \<Longrightarrow>
     join_loop sep es k R =
       R @ concat (map (\<lambda>e. sep @ (case e of None \<Rightarrow> '''' | Some s \<Rightarrow> s)) es)"
  by (induction es arbitrary: k R) simp_all

lemma join_Nil: "join [] sep = ''''"
  by (simp add: join_def)

lemma join_Cons:
  "join (e # es) sep =
     (case e of None \<Rightarrow> '''' | Some s \<Rightarrow> s) @
     concat (map (\<lambda>e. sep @ (case e of None \<Rightarrow> '''' | Some s \<Rightarrow> s)) es)"
  by (simp add: join_def join_loop_pos)

lemma chatting_returns:
  assumes "generateContent svc ''gemini-2.0-flash'' (History st @ [userTurn q]) rewriteInstruction = Inr eq"
    and "embedQuery svc (queryEmbeddingConfig (env svc)) eq = Inr v"
    and "query svc (env svc ''PINECONE_INDEX_NAME'') 10 v True = Inr ms"
    and "build_context ms = Inr ctx"
    and "generateContent svc ''gemini-2.0-flash'' (History st @ [userTurn eq]) (answerInstruction ctx) = Inr r"
  shows "chatting svc q st =
           (Inr (), st\<lparr>History := History st @ [userTurn eq, modelTurn r],
                        console := console st @ [''\<newline>'', r]\<rparr>)"
  using assms by (simp add: chatting_def transformQuery_returns)

lemma chatting_generation_throws:
  assumes "generateContent svc ''gemini-2.0-flash'' (History st @ [userTurn q]) rewriteInstruction = Inr eq"
    and "embedQuery svc (queryEmbeddingConfig (env svc)) eq = Inr v"
    and "query svc (env svc ''PINECONE_INDEX_NAME'') 10 v True = Inr ms"
    and "build_context ms = Inr ctx"
    and "generateContent svc ''gemini-2.0-flash'' (History st @ [userTurn eq]) (answerInstruction ctx) = Inl e"
  shows "chatting svc q st = (Inl e, st\<lparr>History := History st @ [userTurn eq]\<rparr>)"
  using assms by (simp add: chatting_def transformQuery_returns)

lemma chatting_Inr_shape:
  assumes "chatting svc q st = (Inr u, st')"
  shows "\<exists>eq r. History st' = History st @ [userTurn eq, modelTurn r]"
  using assms
  by (auto simp: chatting_def transformQuery_def Let_def split: sum.splits prod.splits)

lemma main_None:
  "fst (main ts st) = None \<Longrightarrow>
     length (History (snd (main ts st))) = length (History st) + 2 * length ts \<and>
     completed ts st = length ts"
proof (induction ts arbitrary: st)
  case Nil
  then show ?case by simp
next
  case (Cons a ts)
  obtain svc q where a: "a = (svc, q)" by (cases a)
  obtain res st' where c: "chatting svc q st = (res, st')" by (cases "chatting svc q st")
  show ?case
  proof (cases res)
    case (Inl e)
    with Cons.prems a c show ?thesis by simp
  next
    case (Inr u)
    with c obtain eq r where h: "History st' = History st @ [userTurn eq, modelTurn r]"
      using chatting_Inr_shape by blast
    from Cons.prems a c Inr have "fst (main ts st') = None" by simp
    from Cons.IH [OF this] a c Inr h show ?thesis by simp
  qed
qed

lemma assemble_join: "join (map Some ts) separator = assemble ts"
proof (induction ts rule: assemble.induct)
  case 1
  show ?case by (simp add: join_Nil)
next
  case (2 t)
  show ?case by (simp add: join_Cons)
next
  case (3 t u ts)
  then show ?case by (simp add: join_Cons)
qed

lemma match_texts_all2:
  "list_all2 (\<lambda>m t. \<exists>md. metadata m = Some md \<and> md ''text'' = Some t) ms ts \<Longrightarrow>
     match_texts ms = Inr (map Some ts)"
  by (induction ms ts rule: list_all2_induct) auto

lemma scripted_sel [simp]:
  "generateContent (scripted rw em ix gen) m contents rewriteInstruction = rw"
  "generateContent (scripted rw em ix gen) m contents (answerInstruction c) = gen contents"
  "embedQuery (scripted rw em ix gen) cfg t = em"
  "query (scripted rw em ix gen) name k v b = ix"
  "env (scripted rw em ix gen) = Map.empty"
  by (simp_all add: scripted_def instructions_differ)

lemma build_context_Nil: "build_context [] = Inr ''''"
  by (simp add: build_context_def join_Nil)

lemma build_context_bst:
  "build_context [bst_match] = Inr ''Binary search trees have O(log n) average lookup time.''"
  by (simp add: build_context_def bst_match_def join_Cons)

lemma chatting_Inl_length:  assumes "chatting svc q st = (Inl e, st')"
  shows "length (History st') = length (History st) + (if model_call_rejected svc q st then 1 else 0)"
  using assms
  by (auto simp: chatting_def transformQuery_def model_call_rejected_def Let_def
           split: sum.splits prod.splits)

lemma main_length:
  "length (History (snd (main ts st))) = length (History st) + 2 * completed ts st + stray ts st"
proof (induction ts arbitrary: st)
  case Nil
  show ?case by simp
next
  case (Cons a ts)
  obtain svc q where a: "a = (svc, q)" by (cases a)
  obtain res st' where c: "chatting svc q st = (res, st')" by (cases "chatting svc q st")
  show ?case
  proof (cases res)
    case (Inl e)
    with c have "length (History st') =
        length (History st) + (if model_call_rejected svc q st then 1 else 0)"
      using chatting_Inl_length by blast
    with a c Inl show ?thesis by simp
  next
    case (Inr u)
    with c obtain eq r where h: "History st' = History st @ [userTurn eq, modelTurn r]"
      using chatting_Inr_shape by blast
    from Cons.IH [of st'] a c Inr h show ?thesis by simp
  qed
qed

lemma main_None_stray: "fst (main ts st) = None \<Longrightarrow> stray ts st = 0"
proof (induction ts arbitrary: st)
  case Nil
  show ?case by simp
next
  case (Cons a ts)
  obtain svc q where a: "a = (svc, q)" by (cases a)
  obtain res st' where c: "chatting svc q st = (res, st')" by (cases "chatting svc q st")
  show ?case
  proof (cases res)
    case (Inl e)
    with Cons.prems a c show ?thesis by simp
  next
    case (Inr u)
    from Cons.prems a c Inr have "fst (main ts st') = None" by simp
    from Cons.IH [OF this] a c Inr show ?thesis by simp
  qed
qed

lemma stray_le_1: "stray ts st \<le> 1"
proof (induction ts arbitrary: st)
  case Nil
  show ?case by simp
next
  case (Cons a ts)
  obtain svc q where a: "a = (svc, q)" by (cases a)
  show ?case using Cons.IH unfolding a by (simp split: sum.splits prod.splits)
qed

subsection \<open>The query rewriter\<close>

text \<open>
  C3, as the code has it. Whenever the model call of \<^verbatim>\<open>transformQuery\<close> returns, the
  state after the call is the state before it (the turn pushed for rewriting has been
  popped again) and the only result is the rewritten query.
\<close>

theorem transformQuery_restores_History:
  assumes "generateContent svc ''gemini-2.0-flash'' (History st @ [userTurn question]) rewriteInstruction
             = Inr rewritten"
  shows "transformQuery svc question st = (Inr rewritten, st)"
  using assms by (rule transformQuery_returns)

theorem transformQuery_restores_History_witness:
  "transformQuery (scripted (Inr ''What is a heap?'') (Inr [1]) (Inr []) (\<lambda>c. Inr ''A tree.''))
      ''what is it?'' \<lparr>History = [userTurn ''What is a tree?'', modelTurn ''A graph.''], console = []\<rparr>
   = (Inr ''What is a heap?'',
      \<lparr>History = [userTurn ''What is a tree?'', modelTurn ''A graph.''], console = []\<rparr>)"
  using transformQuery_restores_History
    [of "scripted (Inr ''What is a heap?'') (Inr [1]) (Inr []) (\<lambda>c. Inr ''A tree.'')"
        "\<lparr>History = [userTurn ''What is a tree?'', modelTurn ''A graph.''], console = []\<rparr>"
        "''what is it?''" "''What is a heap?''"]
  by simp

text \<open>
  C3 as stated also covers a model call that fails. There the \<^verbatim>\<open>pop\<close> is not reached:
  with a rejecting model and an empty history, the history after the call holds the
  pushed turn.
\<close>

theorem transformQuery_failure_counterexample:
  "History (snd (transformQuery
       (scripted (Inl (Rejected ''503'')) (Inr [1]) (Inr []) (\<lambda>c. Inr ''A tree.''))
       ''what is it?'' initial))
   \<noteq> History initial"
  by (simp add: transformQuery_def initial_def)

subsection \<open>A turn whose generation call fails\<close>

text \<open>
  C1, as the code has it. \<^verbatim>\<open>chatting\<close> pushes the rewritten query before it awaits the
  generation call, and nothing undoes the push. When rewriting, embedding, the index
  query and the context all succeed and the generation call fails with \<open>e\<close>, the call
  of \<^verbatim>\<open>chatting\<close> fails with \<open>e\<close> and the history is the one before the turn with the
  user turn of the rewritten query appended; \<^verbatim>\<open>main\<close> stops there, whatever input
  would follow. A further call of \<^verbatim>\<open>chatting\<close> with the same utterance on that
  history, when all its calls succeed, appends its own user turn and model turn after
  the left-over user turn.
\<close>
theorem generation_failure_keeps_user_turn:
  assumes "generateContent svc ''gemini-2.0-flash'' (History st @ [userTurn q]) rewriteInstruction = Inr eq"
    and "embedQuery svc (queryEmbeddingConfig (env svc)) eq = Inr v"
    and "query svc (env svc ''PINECONE_INDEX_NAME'') 10 v True = Inr ms"
    and "build_context ms = Inr ctx"
    and "generateContent svc ''gemini-2.0-flash'' (History st @ [userTurn eq]) (answerInstruction ctx) = Inl e"
    and "generateContent svc' ''gemini-2.0-flash'' (History st @ [userTurn eq, userTurn q]) rewriteInstruction = Inr eq'"
    and "embedQuery svc' (queryEmbeddingConfig (env svc')) eq' = Inr v'"
    and "query svc' (env svc' ''PINECONE_INDEX_NAME'') 10 v' True = Inr ms'"
    and "build_context ms' = Inr ctx'"
    and "generateContent svc' ''gemini-2.0-flash'' (History st @ [userTurn eq, userTurn eq']) (answerInstruction ctx') = Inr r'"
  shows "chatting svc q st = (Inl e, st\<lparr>History := History st @ [userTurn eq]\<rparr>) \<and>
         main ((svc, q) # rest) st = (Some e, st\<lparr>History := History st @ [userTurn eq]\<rparr>) \<and>
         chatting svc' q (st\<lparr>History := History st @ [userTurn eq]\<rparr>) =
           (Inr (), st\<lparr>History := History st @ [userTurn eq, userTurn eq', modelTurn r'],
                        console := console st @ [''\<newline>'', r']\<rparr>)"
proof -
  let ?st1 = "st\<lparr>History := History st @ [userTurn eq]\<rparr>"
  have failed: "chatting svc q st = (Inl e, ?st1)"
    using assms(1-5) by (rule chatting_generation_throws)
  have again: "chatting svc' q ?st1 =
      (Inr (), ?st1\<lparr>History := History ?st1 @ [userTurn eq', modelTurn r'],
                     console := console ?st1 @ [''\<newline>'', r']\<rparr>)"
    by (rule chatting_returns [where v = v' and ms = ms' and ctx = ctx'])
       (use assms(6-10) in simp_all)
  from failed again show ?thesis by simp
qed

theorem generation_failure_keeps_user_turn_witness:
  "chatting (scripted (Inr ''What is a heap?'') (Inr [1]) (Inr [bst_match]) (\<lambda>c. Inl (Rejected ''429'')))
      ''what is a heap?'' initial
     = (Inl (Rejected ''429''), \<lparr>History = [userTurn ''What is a heap?''], console = []\<rparr>) \<and>
   main [(scripted (Inr ''What is a heap?'') (Inr [1]) (Inr [bst_match]) (\<lambda>c. Inl (Rejected ''429'')),
          ''what is a heap?''),
         (scripted (Inr ''What is a heap?'') (Inr [1]) (Inr [bst_match]) (\<lambda>c. Inr ''A tree.''),
          ''what is a heap?'')] initial
     = (Some (Rejected ''429''), \<lparr>History = [userTurn ''What is a heap?''], console = []\<rparr>) \<and>
   chatting (scripted (Inr ''What is a heap?'') (Inr [1]) (Inr [bst_match]) (\<lambda>c. Inr ''A tree.''))
      ''what is a heap?'' \<lparr>History = [userTurn ''What is a heap?''], console = []\<rparr>
     = (Inr (), \<lparr>History = [userTurn ''What is a heap?'', userTurn ''What is a heap?'', modelTurn ''A tree.''],
                 console = [''\<newline>'', ''A tree.'']\<rparr>)"
  using generation_failure_keeps_user_turn
    [of "scripted (Inr ''What is a heap?'') (Inr [1]) (Inr [bst_match]) (\<lambda>c. Inl (Rejected ''429''))"
        initial "''what is a heap?''" "''What is a heap?''" "[1]" "[bst_match]"
        "''Binary search trees have O(log n) average lookup time.''" "Rejected ''429''"
        "scripted (Inr ''What is a heap?'') (Inr [1]) (Inr [bst_match]) (\<lambda>c. Inr ''A tree.'')"
        "''What is a heap?''" "[1]" "[bst_match]"
        "''Binary search trees have O(log n) average lookup time.''" "''A tree.''"
        "[(scripted (Inr ''What is a heap?'') (Inr [1]) (Inr [bst_match]) (\<lambda>c. Inr ''A tree.''),
          ''what is a heap?'')]"]
  by (simp add: build_context_bst initial_def)

text \<open>
  C1 as stated wants the history of before the turn. With an empty history, a rewriter
  that answers and a generation call that is rejected, the history after the failed turn
  is one entry longer.
\<close>

theorem generation_failure_counterexample:
  "length (History (snd (chatting
       (scripted (Inr ''What is a heap?'') (Inr [1]) (Inr [bst_match]) (\<lambda>c. Inl (Rejected ''429'')))
       ''what is a heap?'' initial)))
   \<noteq> length (History initial)"
  by (simp add: chatting_def transformQuery_def build_context_bst initial_def)

subsection \<open>A turn whose retrieval is empty\<close>

text \<open>
  C4, as the code has it. With zero matches the context is the empty string and no
  error; the generation model is still called, on an instruction that contains the
  sentence \<open>fallbackAnswer\<close> it is told to say, and the answer stored and printed is
  whatever text the model returns.
\<close>
theorem empty_retrieval_answer_is_model_text:
  assumes "generateContent svc ''gemini-2.0-flash'' (History st @ [userTurn q]) rewriteInstruction = Inr eq"
    and "embedQuery svc (queryEmbeddingConfig (env svc)) eq = Inr v"
    and "query svc (env svc ''PINECONE_INDEX_NAME'') 10 v True = Inr []"
    and "generateContent svc ''gemini-2.0-flash'' (History st @ [userTurn eq]) (answerInstruction '''') = Inr r"
  shows "build_context [] = Inr '''' \<and>
         (\<exists>pre post. answerInstruction '''' = pre @ fallbackAnswer @ post) \<and>
         chatting svc q st =
           (Inr (), st\<lparr>History := History st @ [userTurn eq, modelTurn r],
                        console := console st @ [''\<newline>'', r]\<rparr>)"
proof -
  have "answerInstruction '''' = take 278 (answerInstruction '''') @ fallbackAnswer @ drop 331 (answerInstruction '''')"
    by (simp add: answerInstruction_def fallbackAnswer_def)
  then have "\<exists>pre post. answerInstruction '''' = pre @ fallbackAnswer @ post" by blast
  moreover have "chatting svc q st =
           (Inr (), st\<lparr>History := History st @ [userTurn eq, modelTurn r],
                        console := console st @ [''\<newline>'', r]\<rparr>)"
    using assms(1,2,3) build_context_Nil assms(4) by (rule chatting_returns)
  ultimately show ?thesis using build_context_Nil by simp
qed

theorem empty_retrieval_answer_is_model_text_witness:
  "build_context [] = Inr '''' \<and>
   (\<exists>pre post. answerInstruction '''' = pre @ fallbackAnswer @ post) \<and>
   chatting (scripted (Inr ''What is a trie?'') (Inr [1]) (Inr []) (\<lambda>c. Inr fallbackAnswer))
      ''what is a trie?'' initial
     = (Inr (), \<lparr>History = [userTurn ''What is a trie?'', modelTurn fallbackAnswer],
                 console = [''\<newline>'', fallbackAnswer]\<rparr>)"
  using empty_retrieval_answer_is_model_text
    [of "scripted (Inr ''What is a trie?'') (Inr [1]) (Inr []) (\<lambda>c. Inr fallbackAnswer)"
        initial "''what is a trie?''" "''What is a trie?''" "[1]" fallbackAnswer]
  by (simp add: initial_def)

text \<open>
  C4 as stated wants the literal \<open>fallbackAnswer\<close>. With an index that returns no match
  and a model that answers otherwise, the line printed last is the model's text.
\<close>

theorem empty_retrieval_counterexample:
  "query (scripted (Inr ''What is a trie?'') (Inr [1]) (Inr []) (\<lambda>c. Inr ''A trie is a prefix tree.''))
      None 10 [1] True = Inr [] \<and>
   last (console (snd (chatting
      (scripted (Inr ''What is a trie?'') (Inr [1]) (Inr []) (\<lambda>c. Inr ''A trie is a prefix tree.''))
      ''what is a trie?'' initial)))
   \<noteq> fallbackAnswer"
  by (simp add: chatting_def transformQuery_def build_context_Nil initial_def fallbackAnswer_def)

subsection \<open>The length of the history\<close>

text \<open>
  C5, as the code has it. In every session, with \<open>N\<close> the number of completed exchanges,
  the history, empty at the start, has \<open>2 * N\<close> entries plus the stray ones, and there is
  at most one stray entry: the turn pushed before a model call that was rejected in the
  turn that ended the session. So the length is exactly \<open>2 * N\<close> in every session whose
  failing turn, if any, did not fail in a model call: it failed in the embedding call,
  in the index query or in building the context. In a session without a failed turn all
  turns are completed exchanges and nothing is stray.
\<close>

theorem history_length_of_every_session:
  "length (History (snd (main ts initial))) = 2 * completed ts initial + stray ts initial \<and>
   stray ts initial \<le> 1 \<and>
   (fst (main ts initial) = None \<longrightarrow> completed ts initial = length ts \<and> stray ts initial = 0)"
  using main_length [of ts initial] main_None [of ts initial] main_None_stray [of ts initial]
    stray_le_1 [of ts initial]
  by (simp add: initial_def)

theorem history_length_of_every_session_witness:
  "fst (main [(scripted (Inr ''What is a heap?'') (Inr [1]) (Inr [bst_match]) (\<lambda>c. Inr ''A tree.''),
               ''what is a heap?''),
              (scripted (Inr ''How is a heap built?'') (Inr [2]) (Inr []) (\<lambda>c. Inr fallbackAnswer),
               ''how is it built?'')] initial) = None \<and>
   length (History (snd (main
             [(scripted (Inr ''What is a heap?'') (Inr [1]) (Inr [bst_match]) (\<lambda>c. Inr ''A tree.''),
               ''what is a heap?''),
              (scripted (Inr ''How is a heap built?'') (Inr [2]) (Inr []) (\<lambda>c. Inr fallbackAnswer),
               ''how is it built?'')] initial))) = 4 \<and>
   completed [(scripted (Inr ''What is a heap?'') (Inr [1]) (Inr [bst_match]) (\<lambda>c. Inr ''A tree.''),
               ''what is a heap?''),
              (scripted (Inr ''How is a heap built?'') (Inl (Rejected ''embedding quota'')) (Inr [])
                 (\<lambda>c. Inr fallbackAnswer),
               ''how is it built?'')] initial = 1 \<and>
   length (History (snd (main
             [(scripted (Inr ''What is a heap?'') (Inr [1]) (Inr [bst_match]) (\<lambda>c. Inr ''A tree.''),
               ''what is a heap?''),
              (scripted (Inr ''How is a heap built?'') (Inl (Rejected ''embedding quota'')) (Inr [])
                 (\<lambda>c. Inr fallbackAnswer),
               ''how is it built?'')] initial))) = 2 \<and>
   completed [(scripted (Inr ''What is a heap?'') (Inr [1]) (Inr [bst_match]) (\<lambda>c. Inr ''A tree.''),
               ''what is a heap?''),
              (scripted (Inr ''How is a heap built?'') (Inr [2]) (Inr [])
                 (\<lambda>c. Inl (Rejected ''429'')),
               ''how is it built?'')] initial = 1 \<and>
   length (History (snd (main
             [(scripted (Inr ''What is a heap?'') (Inr [1]) (Inr [bst_match]) (\<lambda>c. Inr ''A tree.''),
               ''what is a heap?''),
              (scripted (Inr ''How is a heap built?'') (Inr [2]) (Inr [])
                 (\<lambda>c. Inl (Rejected ''429'')),
               ''how is it built?'')] initial))) = 3"
proof -
  let ?first = "(scripted (Inr ''What is a heap?'') (Inr [1]) (Inr [bst_match]) (\<lambda>c. Inr ''A tree.''),
               ''what is a heap?'')"
  let ?A = "[?first,
             (scripted (Inr ''How is a heap built?'') (Inr [2]) (Inr []) (\<lambda>c. Inr fallbackAnswer),
               ''how is it built?'')]"
  let ?B = "[?first,
             (scripted (Inr ''How is a heap built?'') (Inl (Rejected ''embedding quota'')) (Inr [])
                 (\<lambda>c. Inr fallbackAnswer),
               ''how is it built?'')]"
  let ?C = "[?first,
             (scripted (Inr ''How is a heap built?'') (Inr [2]) (Inr [])
                 (\<lambda>c. Inl (Rejected ''429'')),
               ''how is it built?'')]"
  have okA: "fst (main ?A initial) = None"
    by (simp add: chatting_def transformQuery_def build_context_bst build_context_Nil initial_def)
  have B: "completed ?B initial = 1 \<and> stray ?B initial = 0"
    by (simp add: chatting_def transformQuery_def model_call_rejected_def
          build_context_bst build_context_Nil initial_def)
  have C: "completed ?C initial = 1 \<and> stray ?C initial = 1"
    by (simp add: chatting_def transformQuery_def model_call_rejected_def
          build_context_bst build_context_Nil initial_def)
  from history_length_of_every_session [of ?A] history_length_of_every_session [of ?B]
    history_length_of_every_session [of ?C] okA B C
  show ?thesis by simp
qed

text \<open>
  C5 as stated covers every session. In the session whose only turn fails in the
  rewriting call, no exchange has completed and the history holds the pushed turn.
\<close>

theorem history_length_counterexample:
  "length (History (snd (main
      [(scripted (Inl (Rejected ''503'')) (Inr [1]) (Inr [bst_match]) (\<lambda>c. Inr ''A tree.''),
        ''what is a heap?'')] initial)))
   \<noteq> 2 * completed
      [(scripted (Inl (Rejected ''503'')) (Inr [1]) (Inr [bst_match]) (\<lambda>c. Inr ''A tree.''),
        ''what is a heap?'')] initial"
  by (simp add: chatting_def transformQuery_def initial_def)

subsection \<open>The context\<close>

text \<open>
  C8. The context built from no match is the empty string, not an error; the context
  built from matches that carry the texts \<open>ts\<close> is \<open>assemble ts\<close>: the texts in the
  given order with the one separator between neighbours. It is a function of the
  matches alone.
\<close>
theorem build_context_assembles:
  "build_context [] = Inr '''' \<and>
   (list_all2 (\<lambda>m t. \<exists>md. metadata m = Some md \<and> md ''text'' = Some t) ms ts \<longrightarrow>
      build_context ms = Inr (assemble ts))"
  by (simp add: join_Nil build_context_def match_texts_all2 assemble_join)

theorem build_context_assembles_witness:
  "build_context [] = Inr '''' \<and>
   build_context [bst_match, \<lparr>id = ''chunk-2'', metadata = Some [''text'' \<mapsto> ''A heap is a tree.'']\<rparr>] =
     Inr ''Binary search trees have O(log n) average lookup time.\<newline>\<newline>---\<newline>\<newline>A heap is a tree.''"
proof -
  have rel: "list_all2 (\<lambda>m t. \<exists>md. metadata m = Some md \<and> md ''text'' = Some t)
      [bst_match, \<lparr>id = ''chunk-2'', metadata = Some [''text'' \<mapsto> ''A heap is a tree.'']\<rparr>]
      [''Binary search trees have O(log n) average lookup time.'', ''A heap is a tree.'']"
    by (simp add: bst_match_def)
  from build_context_assembles
    [of "[bst_match, \<lparr>id = ''chunk-2'', metadata = Some [''text'' \<mapsto> ''A heap is a tree.'']\<rparr>]"
        "[''Binary search trees have O(log n) average lookup time.'', ''A heap is a tree.'']"]
    rel
  show ?thesis by (simp add: separator_def)
qed

subsection \<open>What a completed turn appends\<close>

text \<open>
  C9, as the code has it. A call of \<^verbatim>\<open>chatting\<close> that returns has appended exactly two
  turns: a user turn holding the rewriter's output for the raw utterance, and a model
  turn holding the generated response. Only the model turn is appended after
  generation. The user turn is appended before the generation call: when that call is
  rejected, the history of before the turn is already followed by the user turn, and no
  model turn follows.
\<close>

theorem user_turn_before_generation_model_turn_after:
  "(chatting svc q st = (Inr u, st') \<longrightarrow>
      (\<exists>eq v ms ctx r.
         generateContent svc ''gemini-2.0-flash'' (History st @ [userTurn q]) rewriteInstruction = Inr eq \<and>
         embedQuery svc (queryEmbeddingConfig (env svc)) eq = Inr v \<and>
         query svc (env svc ''PINECONE_INDEX_NAME'') 10 v True = Inr ms \<and>
         build_context ms = Inr ctx \<and>
         generateContent svc ''gemini-2.0-flash'' (History st @ [userTurn eq]) (answerInstruction ctx) = Inr r \<and>
         st' = st\<lparr>History := History st @ [userTurn eq, modelTurn r],
                    console := console st @ [''\<newline>'', r]\<rparr>)) \<and>
   (generateContent svc ''gemini-2.0-flash'' (History st @ [userTurn q]) rewriteInstruction = Inr eq' \<and>
    embedQuery svc (queryEmbeddingConfig (env svc)) eq' = Inr v' \<and>
    query svc (env svc ''PINECONE_INDEX_NAME'') 10 v' True = Inr ms' \<and>
    build_context ms' = Inr ctx' \<and>
    generateContent svc ''gemini-2.0-flash'' (History st @ [userTurn eq']) (answerInstruction ctx') = Inl e
    \<longrightarrow> chatting svc q st = (Inl e, st\<lparr>History := History st @ [userTurn eq']\<rparr>))"
proof (intro conjI impI)
  assume "chatting svc q st = (Inr u, st')"
  then show "\<exists>eq v ms ctx r.
         generateContent svc ''gemini-2.0-flash'' (History st @ [userTurn q]) rewriteInstruction = Inr eq \<and>
         embedQuery svc (queryEmbeddingConfig (env svc)) eq = Inr v \<and>
         query svc (env svc ''PINECONE_INDEX_NAME'') 10 v True = Inr ms \<and>
         build_context ms = Inr ctx \<and>
         generateContent svc ''gemini-2.0-flash'' (History st @ [userTurn eq]) (answerInstruction ctx) = Inr r \<and>
         st' = st\<lparr>History := History st @ [userTurn eq, modelTurn r],
                    console := console st @ [''\<newline>'', r]\<rparr>"
    by (auto simp: chatting_def transformQuery_def Let_def split: sum.splits prod.splits)
next
  assume "generateContent svc ''gemini-2.0-flash'' (History st @ [userTurn q]) rewriteInstruction = Inr eq' \<and>
    embedQuery svc (queryEmbeddingConfig (env svc)) eq' = Inr v' \<and>
    query svc (env svc ''PINECONE_INDEX_NAME'') 10 v' True = Inr ms' \<and>
    build_context ms' = Inr ctx' \<and>
    generateContent svc ''gemini-2.0-flash'' (History st @ [userTurn eq']) (answerInstruction ctx') = Inl e"
  then show "chatting svc q st = (Inl e, st\<lparr>History := History st @ [userTurn eq']\<rparr>)"
    using chatting_generation_throws [of svc st q eq' v' ms' ctx' e] by blast
qed

theorem user_turn_before_generation_model_turn_after_witness:
  "chatting (scripted (Inr ''How is a heap built?'') (Inr [1]) (Inr [bst_match]) (\<lambda>c. Inr ''Bottom up.''))
      ''how is it built?'' \<lparr>History = [userTurn ''What is a heap?'', modelTurn ''A tree.''], console = []\<rparr>
     = (Inr (), \<lparr>History = [userTurn ''What is a heap?'', modelTurn ''A tree.'',
                             userTurn ''How is a heap built?'', modelTurn ''Bottom up.''],
                 console = [''\<newline>'', ''Bottom up.'']\<rparr>) \<and>
   chatting (scripted (Inr ''How is a heap built?'') (Inr [1]) (Inr [bst_match]) (\<lambda>c. Inl (Rejected ''429'')))
      ''how is it built?'' \<lparr>History = [userTurn ''What is a heap?'', modelTurn ''A tree.''], console = []\<rparr>
     = (Inl (Rejected ''429''),
        \<lparr>History = [userTurn ''What is a heap?'', modelTurn ''A tree.'',
                     userTurn ''How is a heap built?''],
          console = []\<rparr>)"
proof -
  let ?st = "\<lparr>History = [userTurn ''What is a heap?'', modelTurn ''A tree.''], console = []\<rparr>"
  let ?ok = "scripted (Inr ''How is a heap built?'') (Inr [1]) (Inr [bst_match]) (\<lambda>c. Inr ''Bottom up.'')"
  let ?down = "scripted (Inr ''How is a heap built?'') (Inr [1]) (Inr [bst_match]) (\<lambda>c. Inl (Rejected ''429''))"
  obtain u st' where run: "chatting ?ok ''how is it built?'' ?st = (Inr u, st')"
    by (simp add: chatting_def transformQuery_def build_context_bst)
  from user_turn_before_generation_model_turn_after
         [of ?ok "''how is it built?''" ?st u st' "''How is a heap built?''" "[1]" "[bst_match]"
             "''Binary search trees have O(log n) average lookup time.''" "Rejected ''429''"]
       run
  have "st' = \<lparr>History = [userTurn ''What is a heap?'', modelTurn ''A tree.'',
                             userTurn ''How is a heap built?'', modelTurn ''Bottom up.''],
                 console = [''\<newline>'', ''Bottom up.'']\<rparr>"
    by auto
  with run have first: "chatting ?ok ''how is it built?'' ?st =
      (Inr (), \<lparr>History = [userTurn ''What is a heap?'', modelTurn ''A tree.'',
                             userTurn ''How is a heap built?'', modelTurn ''Bottom up.''],
                 console = [''\<newline>'', ''Bottom up.'']\<rparr>)"
    by simp
  from user_turn_before_generation_model_turn_after
         [of ?down "''how is it built?''" ?st "()" ?st "''How is a heap built?''" "[1]" "[bst_match]"
             "''Binary search trees have O(log n) average lookup time.''" "Rejected ''429''"]
  have second: "chatting ?down ''how is it built?'' ?st =
      (Inl (Rejected ''429''),
        \<lparr>History = [userTurn ''What is a heap?'', modelTurn ''A tree.'',
                     userTurn ''How is a heap built?''],
          console = []\<rparr>)"
    by (simp add: build_context_bst)
  from first second show ?thesis by (rule conjI)
qed

text \<open>
  C9 as stated has both appends after generation, so that nothing is appended in a turn
  whose generation call does not return. In the turn below the generation call is
  rejected, and the history has grown by the user turn of the rewritten query.
\<close>

theorem user_turn_appended_without_generation_counterexample:
  "fst (chatting
      (scripted (Inr ''How is a heap built?'') (Inr [1]) (Inr [bst_match]) (\<lambda>c. Inl (Rejected ''429'')))
      ''how is it built?''
      \<lparr>History = [userTurn ''What is a heap?'', modelTurn ''A tree.''], console = []\<rparr>)
     = Inl (Rejected ''429'') \<and>
   History (snd (chatting
      (scripted (Inr ''How is a heap built?'') (Inr [1]) (Inr [bst_match]) (\<lambda>c. Inl (Rejected ''429'')))
      ''how is it built?''
      \<lparr>History = [userTurn ''What is a heap?'', modelTurn ''A tree.''], console = []\<rparr>))
     \<noteq> [userTurn ''What is a heap?'', modelTurn ''A tree.''] \<and>
   last (History (snd (chatting
      (scripted (Inr ''How is a heap built?'') (Inr [1]) (Inr [bst_match]) (\<lambda>c. Inl (Rejected ''429'')))
      ''how is it built?''
      \<lparr>History = [userTurn ''What is a heap?'', modelTurn ''A tree.''], console = []\<rparr>)))
     = userTurn ''How is a heap built?''"
  by (simp add: chatting_def transformQuery_def build_context_bst)

subsection \<open>A turn whose retrieval fails\<close>

text \<open>
  C10. When the rewriting step has returned and then the embedding call fails, or the
  index query fails, or building the context throws, the call of \<^verbatim>\<open>chatting\<close> fails
  with that error and the state is the one before the turn.
\<close>
theorem retrieval_failure_leaves_state:
  assumes "generateContent svc ''gemini-2.0-flash'' (History st @ [userTurn q]) rewriteInstruction = Inr eq"
    and "embedQuery svc (queryEmbeddingConfig (env svc)) eq = Inl e \<or>
         (\<exists>v. embedQuery svc (queryEmbeddingConfig (env svc)) eq = Inr v \<and>
              (query svc (env svc ''PINECONE_INDEX_NAME'') 10 v True = Inl e \<or>
               (\<exists>ms. query svc (env svc ''PINECONE_INDEX_NAME'') 10 v True = Inr ms \<and>
                     build_context ms = Inl e)))"
  shows "chatting svc q st = (Inl e, st)"
  using assms(2) transformQuery_returns [OF assms(1)]
  by (auto simp: chatting_def)

theorem retrieval_failure_leaves_state_witness:
  "chatting (scripted (Inr ''What is a heap?'') (Inl (Rejected ''embedding quota'')) (Inr [bst_match])
               (\<lambda>c. Inr ''A tree.''))
      ''what is it?'' \<lparr>History = [userTurn ''What is a tree?'', modelTurn ''A graph.''], console = []\<rparr>
     = (Inl (Rejected ''embedding quota''),
        \<lparr>History = [userTurn ''What is a tree?'', modelTurn ''A graph.''], console = []\<rparr>) \<and>
   chatting (scripted (Inr ''What is a heap?'') (Inr [1]) (Inl (Rejected ''index unreachable''))
               (\<lambda>c. Inr ''A tree.''))
      ''what is it?'' \<lparr>History = [userTurn ''What is a tree?'', modelTurn ''A graph.''], console = []\<rparr>
     = (Inl (Rejected ''index unreachable''),
        \<lparr>History = [userTurn ''What is a tree?'', modelTurn ''A graph.''], console = []\<rparr>) \<and>
   chatting (scripted (Inr ''What is a heap?'') (Inr [1]) (Inr [\<lparr>id = ''bare'', metadata = None\<rparr>])
               (\<lambda>c. Inr ''A tree.''))
      ''what is it?'' \<lparr>History = [userTurn ''What is a tree?'', modelTurn ''A graph.''], console = []\<rparr>
     = (Inl TypeError,
        \<lparr>History = [userTurn ''What is a tree?'', modelTurn ''A graph.''], console = []\<rparr>)"
proof -
  let ?st = "\<lparr>History = [userTurn ''What is a tree?'', modelTurn ''A graph.''], console = []\<rparr>"
  have bare: "build_context [\<lparr>id = ''bare'', metadata = None\<rparr>] = Inl TypeError"
    by (simp add: build_context_def)
  have "chatting (scripted (Inr ''What is a heap?'') (Inl (Rejected ''embedding quota'')) (Inr [bst_match])
               (\<lambda>c. Inr ''A tree.'')) ''what is it?'' ?st = (Inl (Rejected ''embedding quota''), ?st)"
    by (rule retrieval_failure_leaves_state [where eq = "''What is a heap?''"]) simp_all
  moreover
  have "chatting (scripted (Inr ''What is a heap?'') (Inr [1]) (Inl (Rejected ''index unreachable''))
               (\<lambda>c. Inr ''A tree.'')) ''what is it?'' ?st = (Inl (Rejected ''index unreachable''), ?st)"
    by (rule retrieval_failure_leaves_state [where eq = "''What is a heap?''"]) simp_all
  moreover
  have "chatting (scripted (Inr ''What is a heap?'') (Inr [1]) (Inr [\<lparr>id = ''bare'', metadata = None\<rparr>])
               (\<lambda>c. Inr ''A tree.'')) ''what is it?'' ?st = (Inl TypeError, ?st)"
    by (rule retrieval_failure_leaves_state [where eq = "''What is a heap?''"]) (simp_all add: bare)
  ultimately show ?thesis by simp
qed

subsection \<open>Facts about the index\<close>

lemma dom_upsert: "dom (upsert items ix) = dom ix \<union> fst ` set items"
proof (induction items arbitrary: ix)
  case Nil
  show ?case by simp
next
  case (Cons a items)
  obtain i r where a: "a = (i, r)" by (cases a)
  have "dom (upsert items (ix(i \<mapsto> r))) = dom (ix(i \<mapsto> r)) \<union> fst ` set items"
    by (rule Cons.IH)
  then show ?case
    unfolding a by (simp only: upsert.simps dom_fun_upd) auto
qed

lemma upsert_map_add: "upsert items ix = ix ++ map_of (rev items)"
proof (induction items arbitrary: ix)
  case Nil
  show ?case by simp
next
  case (Cons a items)
  obtain i r where a: "a = (i, r)" by (cases a)
  have "upsert (a # items) ix = upsert items (ix(i \<mapsto> r))"
    unfolding a by (simp only: upsert.simps)
  also have "\<dots> = ix(i \<mapsto> r) ++ map_of (rev items)"
    by (rule Cons.IH)
  also have "\<dots> = ix ++ map_of (rev (a # items))"
    unfolding a by (rule ext) (simp add: map_add_def split: option.split)
  finally show ?case .
qed

lemma upsert_twice: "upsert items (upsert items ix) = upsert items ix"
proof -
  have "(ix ++ map_of (rev items)) ++ map_of (rev items) = ix ++ map_of (rev items)"
    by (rule ext) (simp add: map_add_def split: option.split)
  then show ?thesis by (simp add: upsert_map_add)
qed

lemma saveDocument_stores:
  assumes "load svc PDF_PATH = Inr rawDocs"
    and "splitDocuments svc 1000 200 rawDocs = Inr chunkDocs"
    and "embedDocuments svc (indexEmbeddingConfig (ingestEnv svc)) (map pageContent chunkDocs) = Inr vectors"
  shows "saveDocumentIntoVectorDatabase svc ix =
           (Inr (), upsert (zip (documentIds svc chunkDocs)
                      (zip vectors (map (\<lambda>d. (source d)(''text'' \<mapsto> pageContent d)) chunkDocs))) ix)"
  using assms by (simp add: saveDocumentIntoVectorDatabase_def fromDocuments_def)

lemma dom_upsert_zip:
  assumes "length ids = length vectors" and "length vectors = length metas"
  shows "dom (upsert (zip ids (zip vectors metas)) ix) = dom ix \<union> set ids"
proof -
  have "map fst (zip ids (zip vectors metas)) = ids"
    using assms by simp
  then have "fst ` set (zip ids (zip vectors metas)) = set ids"
    by (metis set_map)
  then show ?thesis by (simp add: dom_upsert)
qed

subsection \<open>The embedding model\<close>



subsection \<open>Ingesting a document again\<close>

text \<open>
  C2, as the code has it. \<^verbatim>\<open>saveDocumentIntoVectorDatabase\<close> passes no ids, so the
  records of a run are stored under the ids the store library gives that run. For a
  document that loads, splits into \<open>chunkDocs\<close> and embeds into as many vectors, under
  pairwise different ids: one ingestion into an empty index leaves one record per chunk;
  a second ingestion under the same ids leaves the index as it was; a second ingestion
  under new ids (pairwise different, none used by the first) leaves twice as many
  records.
\<close>
theorem reingestion_count_depends_on_ids:
  assumes "load svc PDF_PATH = Inr rawDocs"
    and "splitDocuments svc 1000 200 rawDocs = Inr chunkDocs"
    and "embedDocuments svc (indexEmbeddingConfig (ingestEnv svc)) (map pageContent chunkDocs) = Inr vectors"
    and "length vectors = length chunkDocs"
    and "length (documentIds svc chunkDocs) = length chunkDocs"
    and "distinct (documentIds svc chunkDocs)"
    and "length ids' = length chunkDocs"
    and "distinct ids'"
    and "set ids' \<inter> set (documentIds svc chunkDocs) = {}"
  shows "card (dom (snd (saveDocumentIntoVectorDatabase svc Map.empty))) = length chunkDocs \<and>
         snd (saveDocumentIntoVectorDatabase svc (snd (saveDocumentIntoVectorDatabase svc Map.empty)))
           = snd (saveDocumentIntoVectorDatabase svc Map.empty) \<and>
         card (dom (snd (saveDocumentIntoVectorDatabase (svc\<lparr>documentIds := \<lambda>docs. ids'\<rparr>)
                           (snd (saveDocumentIntoVectorDatabase svc Map.empty)))))
           = 2 * length chunkDocs"
proof -
  let ?metas = "map (\<lambda>d. (source d)(''text'' \<mapsto> pageContent d)) chunkDocs"
  let ?ids = "documentIds svc chunkDocs"
  let ?svc' = "svc\<lparr>documentIds := \<lambda>docs. ids'\<rparr>"
  have first: "saveDocumentIntoVectorDatabase svc ix =
                 (Inr (), upsert (zip ?ids (zip vectors ?metas)) ix)" for ix
    using assms(1-3) by (rule saveDocument_stores)
  have second: "saveDocumentIntoVectorDatabase ?svc' ix =
                  (Inr (), upsert (zip ids' (zip vectors ?metas)) ix)" for ix
    using saveDocument_stores [of ?svc' rawDocs chunkDocs vectors ix] assms(1-3) by simp
  have d1: "dom (upsert (zip ?ids (zip vectors ?metas)) ix) = dom ix \<union> set ?ids" for ix
    by (rule dom_upsert_zip) (simp_all add: assms(4,5))
  have d2: "dom (upsert (zip ids' (zip vectors ?metas)) ix) = dom ix \<union> set ids'" for ix
    by (rule dom_upsert_zip) (simp_all add: assms(4,7))
  have c1: "card (set ?ids) = length chunkDocs"
    using assms(5,6) by (simp add: distinct_card)
  have c2: "card (set ids') = length chunkDocs"
    using assms(7,8) by (simp add: distinct_card)
  have "card (set ?ids \<union> set ids') = card (set ?ids) + card (set ids')"
    using assms(9) by (intro card_Un_disjoint) auto
  with c1 c2 have c12: "card (set ?ids \<union> set ids') = 2 * length chunkDocs" by simp
  show ?thesis
    by (simp add: first second d1 d2 c1 c12 upsert_twice)
qed

theorem reingestion_count_depends_on_ids_witness:
  "card (dom (snd (saveDocumentIntoVectorDatabase
      (ingesting [\<lparr>pageContent = ''Binary search trees'', source = Map.empty\<rparr>,
                  \<lparr>pageContent = ''have O(log n) average lookup time.'', source = Map.empty\<rparr>]
                 [''id-1'', ''id-2'']) Map.empty))) = 2 \<and>
   snd (saveDocumentIntoVectorDatabase
      (ingesting [\<lparr>pageContent = ''Binary search trees'', source = Map.empty\<rparr>,
                  \<lparr>pageContent = ''have O(log n) average lookup time.'', source = Map.empty\<rparr>]
                 [''id-1'', ''id-2''])
      (snd (saveDocumentIntoVectorDatabase
         (ingesting [\<lparr>pageContent = ''Binary search trees'', source = Map.empty\<rparr>,
                     \<lparr>pageContent = ''have O(log n) average lookup time.'', source = Map.empty\<rparr>]
                    [''id-1'', ''id-2'']) Map.empty)))
    = snd (saveDocumentIntoVectorDatabase
      (ingesting [\<lparr>pageContent = ''Binary search trees'', source = Map.empty\<rparr>,
                  \<lparr>pageContent = ''have O(log n) average lookup time.'', source = Map.empty\<rparr>]
                 [''id-1'', ''id-2'']) Map.empty) \<and>
   card (dom (snd (saveDocumentIntoVectorDatabase
      (ingesting [\<lparr>pageContent = ''Binary search trees'', source = Map.empty\<rparr>,
                  \<lparr>pageContent = ''have O(log n) average lookup time.'', source = Map.empty\<rparr>]
                 [''id-3'', ''id-4''])
      (snd (saveDocumentIntoVectorDatabase
         (ingesting [\<lparr>pageContent = ''Binary search trees'', source = Map.empty\<rparr>,
                     \<lparr>pageContent = ''have O(log n) average lookup time.'', source = Map.empty\<rparr>]
                    [''id-1'', ''id-2'']) Map.empty))))) = 4"
proof -
  let ?chunks = "[\<lparr>pageContent = ''Binary search trees'', source = Map.empty\<rparr>,
                  \<lparr>pageContent = ''have O(log n) average lookup time.'', source = Map.empty\<rparr>]"
  have upd: "(ingesting ?chunks [''id-1'', ''id-2''])\<lparr>documentIds := \<lambda>docs. [''id-3'', ''id-4'']\<rparr>
               = ingesting ?chunks [''id-3'', ''id-4'']"
    by (simp add: ingesting_def)
  from reingestion_count_depends_on_ids
    [of "ingesting ?chunks [''id-1'', ''id-2'']"
        "[\<lparr>pageContent = concat (map pageContent ?chunks), source = Map.empty\<rparr>]"
        ?chunks "map (\<lambda>t. [length t]) (map pageContent ?chunks)" "[''id-3'', ''id-4'']"]
  show ?thesis
    unfolding upd by (simp add: ingesting_def)
qed

text \<open>
  C2 as stated wants the count of a single ingestion. One chunk, ingested twice, the
  second run under an id of its own: the index holds two records, not one.
\<close>

theorem reingestion_counterexample:
  "card (dom (snd (saveDocumentIntoVectorDatabase
      (ingesting [\<lparr>pageContent = ''Binary search trees have O(log n) average lookup time.'',
                   source = Map.empty\<rparr>] [''0b5c9c2e-run-2''])
      (snd (saveDocumentIntoVectorDatabase
         (ingesting [\<lparr>pageContent = ''Binary search trees have O(log n) average lookup time.'',
                      source = Map.empty\<rparr>] [''7d3f1a60-run-1'']) Map.empty)))))
   \<noteq> card (dom (snd (saveDocumentIntoVectorDatabase
         (ingesting [\<lparr>pageContent = ''Binary search trees have O(log n) average lookup time.'',
                      source = Map.empty\<rparr>] [''7d3f1a60-run-1'']) Map.empty)))"
  by (simp add: saveDocumentIntoVectorDatabase_def fromDocuments_def ingesting_def)

end
